theory Spec2Isabelle
  imports Complex_Main
begin

section \<open>Go primitives used by the motion kernel\<close>

text \<open>
  The Go type float64 is modelled by \<open>real\<close>: arithmetic is exact, and NaN and the
  infinities have no counterpart. Go's int is modelled by \<open>int\<close>. The inputs at which a
  statement is shown to fail are small integers: there the float64 computation of the source
  agrees with the exact one, up to the rounding of 1/5.
\<close>

text \<open>Conversion \<open>int(f)\<close> of a float64: the fraction is discarded (truncation toward zero).\<close>

definition goInt :: "real \<Rightarrow> int" where
  "goInt r = (if 0 \<le> r then \<lfloor>r\<rfloor> else \<lceil>r\<rceil>)"

text \<open>Integer division \<open>a / b\<close> on Go ints: the quotient is truncated toward zero.\<close>

definition goQuot :: "int \<Rightarrow> int \<Rightarrow> int" where
  "goQuot a b = (if 0 \<le> a then a div b else - ((- a) div b))"

text \<open>
  \<open>math.Mod(x, y)\<close>: the floating-point remainder of x/y, with the sign of x and a magnitude
  below that of y: \<open>x - y * trunc (x / y)\<close>.
\<close>

definition mathMod :: "real \<Rightarrow> real \<Rightarrow> real" where
  "mathMod a b = a - b * real_of_int (goInt (a / b))"

section \<open>Helpers of package d2common\<close>

text \<open>
  Modelled from the spec: \<open>d2common.AlmostEqual\<close> is not part of the sources at hand. The
  spec reads its use as "the remaining distance to target is within tolerance": the two values
  differ by at most the threshold.
\<close>

definition AlmostEqual :: "real \<Rightarrow> real \<Rightarrow> real \<Rightarrow> bool" where
  "AlmostEqual a b threshold = (\<bar>a - b\<bar> \<le> threshold)"

text \<open>
  Modelled from the spec: \<open>d2common.AdjustWithRemainder\<close> is not part of the sources at
  hand. The spec: "advance position toward target by the step amount, but clamp at the target
  and carry any leftover step magnitude forward as remaining step budget". A zero step, and a
  step that points away from the target, advance nothing and leave no budget. The result is
  the new value and the leftover.
\<close>

definition AdjustWithRemainder :: "real \<Rightarrow> real \<Rightarrow> real \<Rightarrow> real \<times> real" where
  "AdjustWithRemainder sourceValue adjustment targetValue =
     (if adjustment = 0 then (sourceValue, 0)
      else if (adjustment < 0) \<noteq> (targetValue - sourceValue < 0) then (sourceValue, 0)
      else if 0 < adjustment then
        (if sourceValue + adjustment > targetValue
         then (targetValue, sourceValue + adjustment - targetValue)
         else (sourceValue + adjustment, 0))
      else
        (if sourceValue + adjustment < targetValue
         then (targetValue, sourceValue + adjustment - targetValue)
         else (sourceValue + adjustment, 0)))"

text \<open>
  \<open>d2common.GetAngleBetween\<close> is not part of the sources at hand either, and the spec gives no
  formula for it: it is a parameter of every operation that calls it. Its result is an
  integer number of degrees (the source converts it with \<open>float64(angle)\<close>).
\<close>

type_synonym angleFn = "real \<Rightarrow> real \<Rightarrow> real \<Rightarrow> real \<Rightarrow> int"

section \<open>The map entity\<close>

text \<open>
  \<open>d2common.PathTile\<close>, the waypoint type: the tile indices the kernel reads. They are
  float64 values in the source (\<open>X*5\<close> is passed to SetTarget's float64 parameter).
\<close>

record PathTile =
  X :: real
  Y :: real

text \<open>
  The callbacks \<open>done\<close> and \<open>directioner\<close> are opaque to the kernel: a callback is modelled
  by an identifier, \<open>None\<close> is the nil function, and calling one is recorded as an event.
  The field \<open>done\<close> is named \<open>doneCb\<close> here.
\<close>

type_synonym callback = nat

datatype event = DoneCall callback | DirectionCall callback int

record mapEntity =
  LocationX :: real
  LocationY :: real
  TileX :: int
  TileY :: int
  subcellX :: real
  subcellY :: real
  offsetX :: int
  offsetY :: int
  TargetX :: real
  TargetY :: real
  Speed :: real
  path :: "PathTile list"
  drawLayer :: int
  doneCb :: "callback option"
  directioner :: "callback option"

definition createMapEntity :: "int \<Rightarrow> int \<Rightarrow> mapEntity" where
  "createMapEntity x y =
     \<lparr>LocationX = real_of_int x, LocationY = real_of_int y,
      TileX = goQuot x 5, TileY = goQuot y 5,
      subcellX = 1 + mathMod (real_of_int x) 5, subcellY = 1 + mathMod (real_of_int y) 5,
      offsetX = 0, offsetY = 0,
      TargetX = real_of_int x, TargetY = real_of_int y,
      Speed = 6, path = [], drawLayer = 0, doneCb = None, directioner = None\<rparr>"

definition SetPath :: "PathTile list \<Rightarrow> callback option \<Rightarrow> mapEntity \<Rightarrow> mapEntity" where
  "SetPath p d m = m\<lparr>path := p, doneCb := d\<rparr>"

definition ClearPath :: "mapEntity \<Rightarrow> mapEntity" where
  "ClearPath m = m\<lparr>path := []\<rparr>"

definition SetSpeed :: "real \<Rightarrow> mapEntity \<Rightarrow> mapEntity" where
  "SetSpeed speed m = m\<lparr>Speed := speed\<rparr>"

definition GetSpeed :: "mapEntity \<Rightarrow> real" where
  "GetSpeed m = Speed m"

definition HasPathFinding :: "mapEntity \<Rightarrow> bool" where
  "HasPathFinding m = (length (path m) > 0)"

definition IsAtTarget :: "mapEntity \<Rightarrow> bool" where
  "IsAtTarget m =
     (\<bar>LocationX m - TargetX m\<bar> < 0.0001 \<and> \<bar>LocationY m - TargetY m\<bar> < 0.0001
      \<and> \<not> HasPathFinding m)"

definition getStepLength :: "angleFn \<Rightarrow> real \<Rightarrow> mapEntity \<Rightarrow> real \<times> real" where
  "getStepLength getAngleBetween tickTime m =
     (let len = tickTime * Speed m;
          angle = 359 - getAngleBetween (LocationX m) (LocationY m) (TargetX m) (TargetY m);
          radians = (pi / 180) * real_of_int angle
      in (len * cos radians, len * sin radians))"

definition angleToDirection :: "real \<Rightarrow> int" where
  "angleToDirection angle =
     (let degreesPerDirection = 360 / 64;
          offset = 45 - degreesPerDirection / 2;
          newDirection = goInt ((angle - offset) / degreesPerDirection)
      in if newDirection \<ge> 64 then newDirection - 64
         else if newDirection < 0 then 64 + newDirection
         else newDirection)"

text \<open>SetTarget returns the calls it made and the updated entity.\<close>

definition SetTarget ::
  "angleFn \<Rightarrow> real \<Rightarrow> real \<Rightarrow> callback option \<Rightarrow> mapEntity \<Rightarrow> event list \<times> mapEntity" where
  "SetTarget getAngleBetween tx ty d m =
     (let m' = m\<lparr>TargetX := tx, TargetY := ty, doneCb := d\<rparr>
      in case directioner m' of
           None \<Rightarrow> ([], m')
         | Some f \<Rightarrow>
             ([DirectionCall f (angleToDirection (real_of_int
                 (359 - getAngleBetween (LocationX m') (LocationY m') tx ty)))], m'))"

definition GetPosition :: "mapEntity \<Rightarrow> real \<times> real" where
  "GetPosition m = (real_of_int (TileX m), real_of_int (TileY m))"

definition GetPositionF :: "mapEntity \<Rightarrow> real \<times> real" where
  "GetPositionF m =
     (real_of_int (TileX m) + subcellX m / 5, real_of_int (TileY m) + subcellY m / 5)"

section \<open>Step\<close>

text \<open>
  The state of Step's loop: the entity, the leftover step budget of each axis (the local
  variables stepX and stepY of the source) and the callback calls made so far.
\<close>

record loopState =
  ent :: mapEntity
  stepX :: real
  stepY :: real
  fired :: "event list"

text \<open>Lines 109 to 123 of the loop body: settle, adjust with remainder, recompute the derived coordinates.\<close>

definition advance :: "loopState \<Rightarrow> loopState" where
  "advance s =
     (let m = ent s;
          sx = (if AlmostEqual (LocationX m - TargetX m) 0 0.0001 then 0 else stepX s);
          sy = (if AlmostEqual (LocationY m - TargetY m) 0 0.0001 then 0 else stepY s);
          ax = AdjustWithRemainder (LocationX m) sx (TargetX m);
          ay = AdjustWithRemainder (LocationY m) sy (TargetY m);
          m1 = m\<lparr>LocationX := fst ax, LocationY := fst ay\<rparr>;
          m2 = m1\<lparr>subcellX := 1 + mathMod (LocationX m1) 5,
                  subcellY := 1 + mathMod (LocationY m1) 5,
                  TileX := goInt (LocationX m1 / 5),
                  TileY := goInt (LocationY m1 / 5)\<rparr>
      in s\<lparr>ent := m2, stepX := snd ax, stepY := snd ay\<rparr>)"

text \<open>
  Lines 125 to 142: within the coarse tolerance of the target, either the head waypoint becomes
  the target (and leaves the queue), or the position is snapped onto the target.
\<close>

definition arrive :: "angleFn \<Rightarrow> mapEntity \<Rightarrow> event list \<times> mapEntity" where
  "arrive getAngleBetween m =
     (if AlmostEqual (LocationX m) (TargetX m) 0.01 \<and> AlmostEqual (LocationY m) (TargetY m) 0.01
      then
        (if length (path m) > 0
         then (let r = SetTarget getAngleBetween (X (path m ! 0) * 5) (Y (path m ! 0) * 5) (doneCb m) m
               in (fst r, (snd r)\<lparr>path := (if length (path m) > 1 then drop 1 (path m) else [])\<rparr>))
         else (let m1 = m\<lparr>LocationX := TargetX m, LocationY := TargetY m\<rparr>
               in ([], m1\<lparr>subcellX := 1 + mathMod (LocationX m1) 5,
                          subcellY := 1 + mathMod (LocationY m1) 5,
                          TileX := goInt (LocationX m1 / 5),
                          TileY := goInt (LocationY m1 / 5)\<rparr>)))
      else ([], m))"

definition stepBody :: "angleFn \<Rightarrow> loopState \<Rightarrow> loopState" where
  "stepBody getAngleBetween s =
     (let s1 = advance s; r = arrive getAngleBetween (ent s1)
      in s1\<lparr>ent := snd r, fired := fired s1 @ fst r\<rparr>)"

text \<open>
  The loop has no counter. It ends because a leftover budget survives an iteration only on an
  axis that was clamped onto its target: unless that iteration took a waypoint, the next one
  settles both axes. The measure counts two per waypoint, and one while some axis can still move.
\<close>

definition live :: "loopState \<Rightarrow> bool" where
  "live s = ((stepX s \<noteq> 0 \<and> \<not> AlmostEqual (LocationX (ent s) - TargetX (ent s)) 0 0.0001)
           \<or> (stepY s \<noteq> 0 \<and> \<not> AlmostEqual (LocationY (ent s) - TargetY (ent s)) 0 0.0001))"

definition loopMeasure :: "loopState \<Rightarrow> nat" where
  "loopMeasure s = 2 * length (path (ent s)) + (if live s then 1 else 0)"

text \<open>The condition under which \<open>arrive\<close> takes the head waypoint.\<close>

definition popped :: "mapEntity \<Rightarrow> bool" where
  "popped m = (AlmostEqual (LocationX m) (TargetX m) 0.01
               \<and> AlmostEqual (LocationY m) (TargetY m) 0.01 \<and> path m \<noteq> [])"

function stepLoop :: "angleFn \<Rightarrow> loopState \<Rightarrow> loopState" where
  "stepLoop getAngleBetween s =
     (let s' = stepBody getAngleBetween s
      in if stepX s' = 0 \<and> stepY s' = 0 then s' else stepLoop getAngleBetween s')"
  by pat_completeness auto

text \<open>The number of times the loop body runs: the same recursion, counting.\<close>

function stepLoopIters :: "angleFn \<Rightarrow> loopState \<Rightarrow> nat" where
  "stepLoopIters getAngleBetween s =
     (let s' = stepBody getAngleBetween s
      in if stepX s' = 0 \<and> stepY s' = 0 then 1 else 1 + stepLoopIters getAngleBetween s')"
  by pat_completeness auto

text \<open>Step returns the calls it made and the updated entity.\<close>

definition Step :: "angleFn \<Rightarrow> real \<Rightarrow> mapEntity \<Rightarrow> event list \<times> mapEntity" where
  "Step getAngleBetween tickTime m =
     (if IsAtTarget m then
        (case doneCb m of
           None \<Rightarrow> ([], m)
         | Some d \<Rightarrow> ([DoneCall d], m\<lparr>doneCb := None\<rparr>))
      else
        (let v = getStepLength getAngleBetween tickTime m;
             r = stepLoop getAngleBetween \<lparr>ent = m, stepX = fst v, stepY = snd v, fired = []\<rparr>
         in (fired r, ent r)))"

text \<open>A run of Step calls, one per tick duration, with nothing in between.\<close>

fun Steps :: "angleFn \<Rightarrow> real list \<Rightarrow> mapEntity \<Rightarrow> event list \<times> mapEntity" where
  "Steps getAngleBetween [] m = ([], m)"
| "Steps getAngleBetween (t # ts) m =
     (let r = Step getAngleBetween t m; r' = Steps getAngleBetween ts (snd r)
      in (fst r @ fst r', snd r'))"

text \<open>
  The entity states the operations of the kernel produce, starting from a created entity.
  The field \<open>directioner\<close> has no setter among the methods; the states admit its assignment,
  so that entities with a direction callback are covered.
\<close>

inductive reachable :: "angleFn \<Rightarrow> mapEntity \<Rightarrow> bool" for getAngleBetween :: angleFn where
  created: "reachable getAngleBetween (createMapEntity x y)"
| withDirectioner: "reachable getAngleBetween m \<Longrightarrow> reachable getAngleBetween (m\<lparr>directioner := f\<rparr>)"
| afterSetPath: "reachable getAngleBetween m \<Longrightarrow> reachable getAngleBetween (SetPath p d m)"
| afterClearPath: "reachable getAngleBetween m \<Longrightarrow> reachable getAngleBetween (ClearPath m)"
| afterSetSpeed: "reachable getAngleBetween m \<Longrightarrow> reachable getAngleBetween (SetSpeed v m)"
| afterSetTarget:
    "reachable getAngleBetween m \<Longrightarrow> reachable getAngleBetween (snd (SetTarget getAngleBetween tx ty d m))"
| afterStep:
    "reachable getAngleBetween m \<Longrightarrow> reachable getAngleBetween (snd (Step getAngleBetween t m))"

section \<open>Notions used by the statements\<close>

text \<open>The tile and subcell fields agree with what lines 120 to 123 compute from the position.\<close>

definition derived :: "mapEntity \<Rightarrow> bool" where
  "derived m =
     (TileX m = goInt (LocationX m / 5) \<and> TileY m = goInt (LocationY m / 5)
      \<and> subcellX m = 1 + mathMod (LocationX m) 5 \<and> subcellY m = 1 + mathMod (LocationY m) 5)"

text \<open>
  The coordinates an axis still has to visit: the current target, then the waypoints of the
  queue in world units.
\<close>

definition targetsX :: "mapEntity \<Rightarrow> real list" where
  "targetsX m = TargetX m # map (\<lambda>w. X w * 5) (path m)"

definition targetsY :: "mapEntity \<Rightarrow> real list" where
  "targetsY m = TargetY m # map (\<lambda>w. Y w * 5) (path m)"

text \<open>
  An axis at p with budget s runs forward through the coordinates ts when each lies more than
  0.0001 beyond the one before and the budget reaches the last; backward is the mirror image.
\<close>

fun forwardRoute :: "real \<Rightarrow> real \<Rightarrow> real list \<Rightarrow> bool" where
  "forwardRoute p s [] = True"
| "forwardRoute p s (t # ts) = (p + 0.0001 < t \<and> t \<le> p + s \<and> forwardRoute t (p + s - t) ts)"

fun backwardRoute :: "real \<Rightarrow> real \<Rightarrow> real list \<Rightarrow> bool" where
  "backwardRoute p s [] = True"
| "backwardRoute p s (t # ts) = (t < p - 0.0001 \<and> p + s \<le> t \<and> backwardRoute t (p + s - t) ts)"

text \<open>An axis rests when every coordinate it has to visit is within 0.0001 of where it stands.\<close>

definition restingAxis :: "real \<Rightarrow> real list \<Rightarrow> bool" where
  "restingAxis p ts = list_all (\<lambda>t. \<bar>p - t\<bar> \<le> 0.0001) ts"

definition movingAxis :: "real \<Rightarrow> real \<Rightarrow> real list \<Rightarrow> bool" where
  "movingAxis p s ts = (forwardRoute p s ts \<or> backwardRoute p s ts)"

definition axisRoute :: "real \<Rightarrow> real \<Rightarrow> real list \<Rightarrow> bool" where
  "axisRoute p s ts = (restingAxis p ts \<or> movingAxis p s ts)"

text \<open>What lines 109 to 118 do to one axis: the new coordinate and the leftover budget.\<close>

definition axisAdvance :: "real \<Rightarrow> real \<Rightarrow> real \<Rightarrow> real \<times> real" where
  "axisAdvance p s t =
     AdjustWithRemainder p (if AlmostEqual (p - t) 0 0.0001 then 0 else s) t"

text \<open>The entity stands on its target (tx, ty) with no waypoint left.\<close>

definition landed :: "mapEntity \<Rightarrow> real \<Rightarrow> real \<Rightarrow> bool" where
  "landed m tx ty =
     (path m = [] \<and> LocationX m = tx \<and> LocationY m = ty \<and> TargetX m = tx \<and> TargetY m = ty)"

section \<open>The widget base of package d2gui\<close>

text \<open>
  The event types of package d2interface are opaque here. A handler is a callback identifier,
  and calling one with an event is recorded. The fields x, y, offsetX and offsetY of the
  source carry the prefix w.
\<close>

typedecl MouseEvent
typedecl MouseMoveEvent

datatype handlerCall = MouseMoveCall callback MouseMoveEvent | MouseCall callback MouseEvent

record widgetBase =
  wx :: int
  wy :: int
  Sx :: int
  Sy :: int
  layer :: int
  visible :: bool
  expanding :: bool
  wOffsetX :: int
  wOffsetY :: int
  mouseEnterHandler :: "callback option"
  mouseLeaveHandler :: "callback option"
  mouseClickHandler :: "callback option"

definition SetMouseEnterHandler :: "callback option \<Rightarrow> widgetBase \<Rightarrow> widgetBase" where
  "SetMouseEnterHandler handler w = w\<lparr>mouseEnterHandler := handler\<rparr>"

definition SetMouseLeaveHandler :: "callback option \<Rightarrow> widgetBase \<Rightarrow> widgetBase" where
  "SetMouseLeaveHandler handler w = w\<lparr>mouseLeaveHandler := handler\<rparr>"

definition SetMouseClickHandler :: "callback option \<Rightarrow> widgetBase \<Rightarrow> widgetBase" where
  "SetMouseClickHandler handler w = w\<lparr>mouseClickHandler := handler\<rparr>"

text \<open>Each event method returns the handler calls it made and its boolean result.\<close>

definition onMouseEnter :: "widgetBase \<Rightarrow> MouseMoveEvent \<Rightarrow> handlerCall list \<times> bool" where
  "onMouseEnter w event =
     (case mouseEnterHandler w of
        None \<Rightarrow> ([], False)
      | Some h \<Rightarrow> ([MouseMoveCall h event], False))"

definition onMouseLeave :: "widgetBase \<Rightarrow> MouseMoveEvent \<Rightarrow> handlerCall list \<times> bool" where
  "onMouseLeave w event =
     (case mouseLeaveHandler w of
        None \<Rightarrow> ([], False)
      | Some h \<Rightarrow> ([MouseMoveCall h event], False))"

definition onMouseButtonClick :: "widgetBase \<Rightarrow> MouseEvent \<Rightarrow> handlerCall list \<times> bool" where
  "onMouseButtonClick w event =
     (case mouseClickHandler w of
        None \<Rightarrow> ([], False)
      | Some h \<Rightarrow> ([MouseCall h event], False))"

definition onMouseMove :: "widgetBase \<Rightarrow> MouseMoveEvent \<Rightarrow> handlerCall list \<times> bool" where
  "onMouseMove w event = ([], False)"

definition onMouseOver :: "widgetBase \<Rightarrow> MouseMoveEvent \<Rightarrow> handlerCall list \<times> bool" where
  "onMouseOver w event = ([], False)"

definition onMouseButtonDown :: "widgetBase \<Rightarrow> MouseEvent \<Rightarrow> handlerCall list \<times> bool" where
  "onMouseButtonDown w event = ([], False)"

definition onMouseButtonUp :: "widgetBase \<Rightarrow> MouseEvent \<Rightarrow> handlerCall list \<times> bool" where
  "onMouseButtonUp w event = ([], False)"

section \<open>The loop of Step is total\<close>

text \<open>
  Of AdjustWithRemainder the argument uses two facts only: a zero step leaves no leftover, and
  a leftover means that the value was clamped onto the target.
\<close>

lemma adjust_zero: "AdjustWithRemainder a 0 t = (a, 0)"
  by (simp add: AdjustWithRemainder_def)

lemma adjust_rem: "snd (AdjustWithRemainder a d t) \<noteq> 0 \<Longrightarrow> fst (AdjustWithRemainder a d t) = t"
  by (auto simp: AdjustWithRemainder_def split: if_splits)

lemma advance_path [simp]: "path (ent (advance s)) = path (ent s)"
  by (simp add: advance_def Let_def)

lemma advance_target [simp]:
  "TargetX (ent (advance s)) = TargetX (ent s)" "TargetY (ent (advance s)) = TargetY (ent s)"
  by (simp_all add: advance_def Let_def)

lemma advance_stepX:
  "stepX (advance s) \<noteq> 0 \<Longrightarrow>
     stepX s \<noteq> 0 \<and> \<not> AlmostEqual (LocationX (ent s) - TargetX (ent s)) 0 0.0001
     \<and> LocationX (ent (advance s)) = TargetX (ent s)"
  using adjust_rem [of "LocationX (ent s)" "stepX s" "TargetX (ent s)"]
  by (auto simp: advance_def Let_def adjust_zero split: if_splits)

lemma advance_stepY:
  "stepY (advance s) \<noteq> 0 \<Longrightarrow>
     stepY s \<noteq> 0 \<and> \<not> AlmostEqual (LocationY (ent s) - TargetY (ent s)) 0 0.0001
     \<and> LocationY (ent (advance s)) = TargetY (ent s)"
  using adjust_rem [of "LocationY (ent s)" "stepY s" "TargetY (ent s)"]
  by (auto simp: advance_def Let_def adjust_zero split: if_splits)

lemma stepBody_steps:
  "stepX (stepBody g s) = stepX (advance s)" "stepY (stepBody g s) = stepY (advance s)"
  by (simp_all add: stepBody_def Let_def)

lemma arrive_popped:
  "popped m \<Longrightarrow> path (snd (arrive g m)) = tl (path m)"
  by (cases "path m") (auto simp: arrive_def popped_def SetTarget_def Let_def drop_Suc split: option.splits)

lemma arrive_not_popped:
  "\<not> popped m \<Longrightarrow>
     path (snd (arrive g m)) = path m \<and> TargetX (snd (arrive g m)) = TargetX m
     \<and> TargetY (snd (arrive g m)) = TargetY m
     \<and> (LocationX m = TargetX m \<longrightarrow> LocationX (snd (arrive g m)) = TargetX m)
     \<and> (LocationY m = TargetY m \<longrightarrow> LocationY (snd (arrive g m)) = TargetY m)"
  by (auto simp: arrive_def popped_def Let_def)

lemma almostEqual_zero: "AlmostEqual 0 0 (1 / 10000)"
  by (simp add: AlmostEqual_def)

lemma loopMeasure_decreases:
  assumes go: "\<not> (stepX (stepBody g s) = 0 \<and> stepY (stepBody g s) = 0)"
  shows "loopMeasure (stepBody g s) < loopMeasure s"
proof -
  let ?a = "advance s"
  have ent: "ent (stepBody g s) = snd (arrive g (ent ?a))"
    by (simp add: stepBody_def Let_def)
  from go have liveS: "live s"
    using advance_stepX [of s] advance_stepY [of s] by (auto simp: live_def stepBody_steps)
  show ?thesis
  proof (cases "popped (ent ?a)")
    case True
    then have "path (ent (stepBody g s)) = tl (path (ent s))" and "path (ent s) \<noteq> []"
      using arrive_popped [of "ent ?a" g] by (simp_all add: ent popped_def)
    then have "length (path (ent (stepBody g s))) < length (path (ent s))"
      by simp
    then show ?thesis by (simp add: loopMeasure_def)
  next
    case False
    note np = arrive_not_popped [OF False, of g]
    have "\<not> live (stepBody g s)"
      using np advance_stepX [of s] advance_stepY [of s]
      by (auto simp: live_def ent almostEqual_zero stepBody_steps)
    moreover have "path (ent (stepBody g s)) = path (ent s)"
      using np by (simp add: ent)
    ultimately show ?thesis using liveS by (simp add: loopMeasure_def)
  qed
qed

termination stepLoop
  apply (relation "measure (\<lambda>(g, s). loopMeasure s)")
   apply simp
  apply (simp add: loopMeasure_decreases)
  done

termination stepLoopIters
  apply (relation "measure (\<lambda>(g, s). loopMeasure s)")
   apply simp
  apply (simp add: loopMeasure_decreases)
  done

declare stepLoop.simps [simp del] stepLoopIters.simps [simp del]

section \<open>Completion fires once\<close>

lemma Step_settled:
  "IsAtTarget m \<Longrightarrow> doneCb m = None \<Longrightarrow> Step g t m = ([], m)"
  by (simp add: Step_def)

lemma Steps_settled:
  "IsAtTarget m \<Longrightarrow> doneCb m = None \<Longrightarrow> Steps g ts m = ([], m)"
  by (induction ts) (simp_all add: Step_settled Let_def)

lemma IsAtTarget_doneCb [simp]: "IsAtTarget (m\<lparr>doneCb := d\<rparr>) = IsAtTarget m"
  by (simp add: IsAtTarget_def HasPathFinding_def)

text \<open>
  C1. In a state where IsAtTarget holds and a completion callback d is registered, Step calls
  d once and clears the field; the whole run made of that Step and of any further Steps
  (whatever their tick durations, with no SetTarget or SetPath in between) contains that
  single call of d and ends with the field cleared.
\<close>

theorem Step_done_exactly_once:
  assumes "IsAtTarget m" and "doneCb m = Some d"
  shows "Step g t m = ([DoneCall d], m\<lparr>doneCb := None\<rparr>)
         \<and> Steps g (t # ts) m = ([DoneCall d], m\<lparr>doneCb := None\<rparr>)"
proof -
  have first: "Step g t m = ([DoneCall d], m\<lparr>doneCb := None\<rparr>)"
    using assms by (simp add: Step_def)
  have rest: "Steps g ts (m\<lparr>doneCb := None\<rparr>) = ([], m\<lparr>doneCb := None\<rparr>)"
    using assms(1) by (intro Steps_settled) simp_all
  show ?thesis using first rest by (simp add: Let_def)
qed

theorem Step_done_exactly_once_witness:
  "IsAtTarget ((createMapEntity 0 0)\<lparr>doneCb := Some 7\<rparr>)
   \<and> doneCb ((createMapEntity 0 0)\<lparr>doneCb := Some 7\<rparr>) = Some 7
   \<and> Steps (\<lambda>a b c d. 0) [1, 1, 2] ((createMapEntity 0 0)\<lparr>doneCb := Some 7\<rparr>)
       = ([DoneCall 7], (createMapEntity 0 0)\<lparr>doneCb := None\<rparr>)"
proof -
  have a: "IsAtTarget ((createMapEntity 0 0)\<lparr>doneCb := Some 7\<rparr>)"
    by (simp add: IsAtTarget_def HasPathFinding_def createMapEntity_def)
  have b: "doneCb ((createMapEntity 0 0)\<lparr>doneCb := Some 7\<rparr>) = Some 7"
    by simp
  show ?thesis
    using a b Step_done_exactly_once [OF a b, of "\<lambda>a b c d. 0" 1 "[1, 2]"]
    by (simp del: Steps.simps)
qed

section \<open>The stopping condition\<close>

text \<open>
  C2. IsAtTarget holds exactly when the position differs from the target by less than 0.0001
  on both axes and the waypoint queue is empty; with a waypoint left it is false, wherever the
  entity stands.
\<close>

theorem IsAtTarget_iff:
  "IsAtTarget m =
     (\<bar>LocationX m - TargetX m\<bar> < 0.0001 \<and> \<bar>LocationY m - TargetY m\<bar> < 0.0001 \<and> path m = [])
   \<and> (path m \<noteq> [] \<longrightarrow> \<not> IsAtTarget m)"
  by (auto simp: IsAtTarget_def HasPathFinding_def)

theorem IsAtTarget_iff_witness:
  "path (SetPath [\<lparr>X = 1, Y = 0\<rparr>] None (createMapEntity 0 0)) \<noteq> []
   \<and> \<not> IsAtTarget (SetPath [\<lparr>X = 1, Y = 0\<rparr>] None (createMapEntity 0 0))"
  using IsAtTarget_iff [of "SetPath [\<lparr>X = 1, Y = 0\<rparr>] None (createMapEntity 0 0)"]
  by (simp add: SetPath_def)

section \<open>Clearing the path\<close>

text \<open>
  C9. ClearPath leaves the waypoint queue empty, so that HasPathFinding is false, and changes
  neither the position, the target, the speed, the tile and subcell coordinates nor the two
  callbacks.
\<close>

theorem ClearPath_frame:
  "path (ClearPath m) = [] \<and> \<not> HasPathFinding (ClearPath m)
   \<and> LocationX (ClearPath m) = LocationX m \<and> LocationY (ClearPath m) = LocationY m
   \<and> TargetX (ClearPath m) = TargetX m \<and> TargetY (ClearPath m) = TargetY m
   \<and> Speed (ClearPath m) = Speed m
   \<and> TileX (ClearPath m) = TileX m \<and> TileY (ClearPath m) = TileY m
   \<and> subcellX (ClearPath m) = subcellX m \<and> subcellY (ClearPath m) = subcellY m
   \<and> doneCb (ClearPath m) = doneCb m \<and> directioner (ClearPath m) = directioner m"
  by (simp add: ClearPath_def HasPathFinding_def)

section \<open>Mouse events of the widget base\<close>

text \<open>
  C10. Each of the seven mouse event methods of widgetBase returns false, for every widget and
  every event. With a handler h registered, onMouseEnter, onMouseLeave and
  onMouseButtonClick call h with the event, and still return false.
\<close>

theorem widgetBase_mouse_events_unhandled:
  "snd (onMouseEnter w mm) = False \<and> snd (onMouseLeave w mm) = False
   \<and> snd (onMouseButtonClick w me) = False \<and> snd (onMouseMove w mm) = False
   \<and> snd (onMouseOver w mm) = False \<and> snd (onMouseButtonDown w me) = False
   \<and> snd (onMouseButtonUp w me) = False
   \<and> onMouseEnter (SetMouseEnterHandler (Some h) w) mm = ([MouseMoveCall h mm], False)
   \<and> onMouseLeave (SetMouseLeaveHandler (Some h) w) mm = ([MouseMoveCall h mm], False)
   \<and> onMouseButtonClick (SetMouseClickHandler (Some h) w) me = ([MouseCall h me], False)"
  by (simp add: onMouseEnter_def onMouseLeave_def onMouseButtonClick_def onMouseMove_def
      onMouseOver_def onMouseButtonDown_def onMouseButtonUp_def SetMouseEnterHandler_def
      SetMouseLeaveHandler_def SetMouseClickHandler_def split: option.split)

section \<open>Facts about the loop\<close>

lemma stepLoop_break:
  "stepX (stepBody g s) = 0 \<Longrightarrow> stepY (stepBody g s) = 0 \<Longrightarrow> stepLoop g s = stepBody g s"
  using stepLoop.simps [of g s] by (simp add: Let_def)

lemma stepLoop_continue:
  "\<not> (stepX (stepBody g s) = 0 \<and> stepY (stepBody g s) = 0) \<Longrightarrow>
     stepLoop g s = stepLoop g (stepBody g s)"
  using stepLoop.simps [of g s] by (auto simp: Let_def)

lemma stepLoopIters_break:
  "stepX (stepBody g s) = 0 \<Longrightarrow> stepY (stepBody g s) = 0 \<Longrightarrow> stepLoopIters g s = 1"
  using stepLoopIters.simps [of g s] by (simp add: Let_def)

lemma stepLoopIters_continue:
  "\<not> (stepX (stepBody g s) = 0 \<and> stepY (stepBody g s) = 0) \<Longrightarrow>
     stepLoopIters g s = 1 + stepLoopIters g (stepBody g s)"
  using stepLoopIters.simps [of g s] by (auto simp: Let_def)

lemma stepBody_ent: "ent (stepBody g s) = snd (arrive g (ent (advance s)))"
  by (simp add: stepBody_def Let_def)

lemma not_live_last: "\<not> live s \<Longrightarrow> stepLoopIters g s = 1"
  using advance_stepX [of s] advance_stepY [of s]
  by (intro stepLoopIters_break) (auto simp: live_def stepBody_steps)

lemma stepBody_not_popped_settles:
  assumes "\<not> popped (ent (advance s))"
  shows "\<not> live (stepBody g s)"
  using arrive_not_popped [OF assms, of g] advance_stepX [of s] advance_stepY [of s]
  by (auto simp: live_def stepBody_ent almostEqual_zero stepBody_steps)

lemmas loop_eval = stepBody_def advance_def arrive_def SetTarget_def AlmostEqual_def
  AdjustWithRemainder_def createMapEntity_def goQuot_def goInt_def mathMod_def Let_def

lemma arrive_pop:
  assumes "AlmostEqual (LocationX m) (TargetX m) 0.01" "AlmostEqual (LocationY m) (TargetY m) 0.01"
    and "path m = w # ws"
  shows "LocationX (snd (arrive g m)) = LocationX m" "LocationY (snd (arrive g m)) = LocationY m"
    "TargetX (snd (arrive g m)) = X w * 5" "TargetY (snd (arrive g m)) = Y w * 5"
    "path (snd (arrive g m)) = ws" "doneCb (snd (arrive g m)) = doneCb m"
  using assms by (simp_all add: arrive_def SetTarget_def Let_def drop_Suc split: option.splits)

lemma arrive_snap:
  assumes "AlmostEqual (LocationX m) (TargetX m) 0.01" "AlmostEqual (LocationY m) (TargetY m) 0.01"
    and "path m = []"
  shows "LocationX (snd (arrive g m)) = TargetX m" "LocationY (snd (arrive g m)) = TargetY m"
    "TargetX (snd (arrive g m)) = TargetX m" "TargetY (snd (arrive g m)) = TargetY m"
    "path (snd (arrive g m)) = []"
  using assms by (simp_all add: arrive_def Let_def)

section \<open>Taking the next waypoint\<close>

text \<open>
  C4. In an iteration of Step's loop, when after the move both axes are within 0.01 of the
  target and the waypoint queue is not empty, the iteration removes exactly the head of the
  queue, sets the target to the head's tile indices times 5, and keeps the completion
  callback; the only call it makes is that of the direction callback, if there is one.
\<close>

theorem stepBody_takes_head_waypoint:
  assumes "AlmostEqual (LocationX (ent (advance s))) (TargetX (ent (advance s))) 0.01"
    and "AlmostEqual (LocationY (ent (advance s))) (TargetY (ent (advance s))) 0.01"
    and "path (ent s) \<noteq> []"
  shows "path (ent (stepBody g s)) = tl (path (ent s))
         \<and> length (path (ent (stepBody g s))) + 1 = length (path (ent s))
         \<and> TargetX (ent (stepBody g s)) = X (hd (path (ent s))) * 5
         \<and> TargetY (ent (stepBody g s)) = Y (hd (path (ent s))) * 5
         \<and> doneCb (ent (stepBody g s)) = doneCb (ent s)
         \<and> fired (stepBody g s) = fired s @
             (case directioner (ent s) of
                None \<Rightarrow> []
              | Some f \<Rightarrow> [DirectionCall f (angleToDirection (real_of_int (359 -
                  g (LocationX (ent (advance s))) (LocationY (ent (advance s)))
                    (X (hd (path (ent s))) * 5) (Y (hd (path (ent s))) * 5))))])"
proof -
  obtain w ws where p: "path (ent s) = w # ws"
    using assms(3) by (cases "path (ent s)") auto
  have keep: "doneCb (ent (advance s)) = doneCb (ent s)"
    "directioner (ent (advance s)) = directioner (ent s)" "fired (advance s) = fired s"
    by (simp_all add: advance_def Let_def)
  have pa: "path (ent (advance s)) = w # ws" using p by simp
  show ?thesis
    using assms(1,2) pa keep p
    by (simp add: stepBody_def arrive_def SetTarget_def Let_def drop_Suc split: option.splits)
qed

theorem stepBody_takes_head_waypoint_witness:
  "AlmostEqual
     (LocationX (ent (advance
       \<lparr>ent = SetPath [\<lparr>X = 2, Y = 0\<rparr>, \<lparr>X = 3, Y = 0\<rparr>] (Some 7)
                 ((createMapEntity 0 0)\<lparr>TargetX := 5\<rparr>),
        stepX = 6, stepY = 0, fired = []\<rparr>)))
     (TargetX (ent (advance
       \<lparr>ent = SetPath [\<lparr>X = 2, Y = 0\<rparr>, \<lparr>X = 3, Y = 0\<rparr>] (Some 7)
                 ((createMapEntity 0 0)\<lparr>TargetX := 5\<rparr>),
        stepX = 6, stepY = 0, fired = []\<rparr>))) 0.01
   \<and> AlmostEqual
     (LocationY (ent (advance
       \<lparr>ent = SetPath [\<lparr>X = 2, Y = 0\<rparr>, \<lparr>X = 3, Y = 0\<rparr>] (Some 7)
                 ((createMapEntity 0 0)\<lparr>TargetX := 5\<rparr>),
        stepX = 6, stepY = 0, fired = []\<rparr>)))
     (TargetY (ent (advance
       \<lparr>ent = SetPath [\<lparr>X = 2, Y = 0\<rparr>, \<lparr>X = 3, Y = 0\<rparr>] (Some 7)
                 ((createMapEntity 0 0)\<lparr>TargetX := 5\<rparr>),
        stepX = 6, stepY = 0, fired = []\<rparr>))) 0.01
   \<and> path (ent (stepBody (\<lambda>a b c d. 0)
       \<lparr>ent = SetPath [\<lparr>X = 2, Y = 0\<rparr>, \<lparr>X = 3, Y = 0\<rparr>] (Some 7)
                 ((createMapEntity 0 0)\<lparr>TargetX := 5\<rparr>),
        stepX = 6, stepY = 0, fired = []\<rparr>)) = [\<lparr>X = 3, Y = 0\<rparr>]
   \<and> TargetX (ent (stepBody (\<lambda>a b c d. 0)
       \<lparr>ent = SetPath [\<lparr>X = 2, Y = 0\<rparr>, \<lparr>X = 3, Y = 0\<rparr>] (Some 7)
                 ((createMapEntity 0 0)\<lparr>TargetX := 5\<rparr>),
        stepX = 6, stepY = 0, fired = []\<rparr>)) = 10
   \<and> doneCb (ent (stepBody (\<lambda>a b c d. 0)
       \<lparr>ent = SetPath [\<lparr>X = 2, Y = 0\<rparr>, \<lparr>X = 3, Y = 0\<rparr>] (Some 7)
                 ((createMapEntity 0 0)\<lparr>TargetX := 5\<rparr>),
        stepX = 6, stepY = 0, fired = []\<rparr>)) = Some 7"
proof -
  let ?s = "\<lparr>ent = SetPath [\<lparr>X = 2, Y = 0\<rparr>, \<lparr>X = 3, Y = 0\<rparr>] (Some 7)
                 ((createMapEntity 0 0)\<lparr>TargetX := 5\<rparr>),
        stepX = 6, stepY = 0, fired = []\<rparr>"
  have a: "LocationX (ent (advance ?s)) = 5" "TargetX (ent (advance ?s)) = 5"
    "LocationY (ent (advance ?s)) = 0" "TargetY (ent (advance ?s)) = 0"
    by (simp_all add: loop_eval SetPath_def)
  have x: "AlmostEqual (LocationX (ent (advance ?s))) (TargetX (ent (advance ?s))) 0.01"
    and y: "AlmostEqual (LocationY (ent (advance ?s))) (TargetY (ent (advance ?s))) 0.01"
    unfolding a by (simp_all add: AlmostEqual_def)
  have p: "path (ent ?s) \<noteq> []" by (simp add: SetPath_def)
  note t = stepBody_takes_head_waypoint [OF x y p, of "\<lambda>a b c d. 0"]
  have "path (ent (stepBody (\<lambda>a b c d. 0) ?s)) = [\<lparr>X = 3, Y = 0\<rparr>]"
    and "TargetX (ent (stepBody (\<lambda>a b c d. 0) ?s)) = 10"
    and "doneCb (ent (stepBody (\<lambda>a b c d. 0) ?s)) = Some 7"
    using t by (simp_all add: SetPath_def)
  with x y show ?thesis by blast
qed

section \<open>The loop ends\<close>

text \<open>
  C8, the claim as stated. The loop carries no cap on its iterations. From the position (0, 0)
  with the target (5, 0), an empty queue and the budgets 6 and 0, the body runs twice: once
  to reach the target with budget to spare, once more to find both axes settled. A cap at
  path length + 1 would have allowed one run.
\<close>

theorem stepLoop_cap_counterexample:
  "stepLoopIters (\<lambda>a b c d. 0)
     \<lparr>ent = (createMapEntity 0 0)\<lparr>TargetX := 5\<rparr>, stepX = 6, stepY = 0, fired = []\<rparr> = 2
   \<and> length (path ((createMapEntity 0 0)\<lparr>TargetX := 5\<rparr>)) + 1 = 1"
  by (simp add: stepLoopIters.simps loop_eval)

text \<open>
  C8, amended. Without any cap, the loop of Step ends for every entity state and every pair of
  budgets, hence for every tick duration and speed: its body runs at most path length + 2
  times. (The functions stepLoop and stepLoopIters are total: their termination is proved
  where they are defined.)
\<close>

theorem stepLoop_iterations_bounded:
  "stepLoopIters g s \<le> length (path (ent s)) + 2
   \<and> stepLoopIters g \<lparr>ent = m, stepX = fst (getStepLength g t m),
                       stepY = snd (getStepLength g t m), fired = []\<rparr> \<le> length (path m) + 2"
proof -
  have bound: "stepLoopIters g s \<le> length (path (ent s)) + 2" for s
  proof (induction g s rule: stepLoopIters.induct)
    case (1 g s)
    show ?case
    proof (cases "stepX (stepBody g s) = 0 \<and> stepY (stepBody g s) = 0")
      case True
      then show ?thesis by (simp add: stepLoopIters_break)
    next
      case False
      note unfold = stepLoopIters_continue [OF False]
      show ?thesis
      proof (cases "popped (ent (advance s))")
        case True
        then have "path (ent (stepBody g s)) = tl (path (ent s))" and "path (ent s) \<noteq> []"
          using arrive_popped [of "ent (advance s)" g] by (simp_all add: stepBody_ent popped_def)
        then have "length (path (ent (stepBody g s))) + 1 = length (path (ent s))"
          by (cases "path (ent s)") simp_all
        with "1.IH" [OF refl False] unfold show ?thesis by linarith
      next
        case False
        then have "stepLoopIters g (stepBody g s) = 1"
          by (intro not_live_last stepBody_not_popped_settles)
        with unfold show ?thesis by simp
      qed
    qed
  qed
  show ?thesis using bound [of s] bound [of "\<lparr>ent = m, stepX = fst (getStepLength g t m),
      stepY = snd (getStepLength g t m), fired = []\<rparr>"] by simp
qed

section \<open>Direction mapping\<close>





section \<open>Derived coordinates\<close>

lemma goQuot_goInt: "goQuot x 5 = goInt (real_of_int x / 5)"
proof (cases "0 \<le> x")
  case True
  then show ?thesis
    using floor_divide_of_int_eq [of x 5, where ?'a = real] by (simp add: goQuot_def goInt_def)
next
  case False
  have "\<lceil>real_of_int x / 5\<rceil> = - \<lfloor>real_of_int (- x) / 5\<rfloor>"
    by (simp add: ceiling_def)
  also have "\<dots> = - ((- x) div 5)"
    using floor_divide_of_int_eq [of "- x" 5, where ?'a = real] by simp
  finally show ?thesis using False by (simp add: goQuot_def goInt_def)
qed

lemma derived_create: "derived (createMapEntity x y)"
  by (simp add: derived_def createMapEntity_def goQuot_goInt)

lemma derived_advance: "derived (ent (advance s))"
  by (simp add: derived_def advance_def Let_def)

lemma derived_arrive: "derived m \<Longrightarrow> derived (snd (arrive g m))"
  by (auto simp: derived_def arrive_def SetTarget_def Let_def split: option.splits)

lemma derived_stepBody: "derived (ent (stepBody g s))"
  by (simp add: stepBody_def Let_def derived_arrive derived_advance)

lemma derived_stepLoop: "derived (ent (stepLoop g s))"
proof (induction g s rule: stepLoop.induct)
  case (1 g s)
  show ?case
  proof (cases "stepX (stepBody g s) = 0 \<and> stepY (stepBody g s) = 0")
    case True
    then show ?thesis
      by (simp add: stepLoop_break derived_stepBody)
  next
    case False
    then show ?thesis using "1.IH" [OF refl False] by (simp add: stepLoop_continue)
  qed
qed

lemma derived_Step: "derived m \<Longrightarrow> derived (snd (Step g t m))"
proof (cases "IsAtTarget m")
  case True
  assume "derived m"
  then have "derived (m\<lparr>doneCb := None\<rparr>)" by (simp add: derived_def)
  with \<open>derived m\<close> True show ?thesis by (simp add: Step_def split: option.splits)
next
  case False
  then show ?thesis by (simp add: Step_def Let_def derived_stepLoop)
qed

lemma reachable_derived: "reachable g m \<Longrightarrow> derived m"
proof (induction rule: reachable.induct)
  case (created x y)
  show ?case by (rule derived_create)
next
  case (afterStep m t)
  then show ?case by (simp add: derived_Step)
qed (auto simp: derived_def SetPath_def ClearPath_def SetSpeed_def SetTarget_def Let_def
    split: option.splits)

lemma trunc_split: "real_of_int (goInt (a / 5)) + (1 + mathMod a 5) / 5 = a / 5 + 1 / 5"
  by (simp add: mathMod_def field_simps)

lemma goInt_mod_nonneg:
  assumes "0 \<le> a"
  shows "goInt (a / 5) = \<lfloor>a / 5\<rfloor>" and "1 \<le> 1 + mathMod a 5" and "1 + mathMod a 5 < 6"
proof -
  show g: "goInt (a / 5) = \<lfloor>a / 5\<rfloor>" using assms by (simp add: goInt_def)
  have "real_of_int \<lfloor>a / 5\<rfloor> \<le> a / 5" by (rule of_int_floor_le)
  then show "1 \<le> 1 + mathMod a 5" by (simp add: mathMod_def g)
  have "a / 5 < real_of_int \<lfloor>a / 5\<rfloor> + 1" by linarith
  then show "1 + mathMod a 5 < 6" by (simp add: mathMod_def g) linarith
qed

lemma first_step_pops:
  "snd (Step (\<lambda>a b c d. 0) 100 (SetPath [\<lparr>X = 100, Y = 0\<rparr>] None (createMapEntity 7 3)))
     = (createMapEntity 7 3)\<lparr>TargetX := 500, TargetY := 0\<rparr>"
  by (simp add: Step_def IsAtTarget_def HasPathFinding_def SetPath_def getStepLength_def
      stepLoop.simps loop_eval)

text \<open>
  C6, the claim as stated. A subcell coordinate is 1 + (position mod 5), so that tile +
  subcell/5 is not position/5: for the entity created at (0, 0), GetPositionF returns
  (1/5, 1/5), and position/5 is (0, 0).
\<close>

theorem GetPositionF_counterexample:
  "GetPositionF (createMapEntity 0 0) = (1 / 5, 1 / 5)
   \<and> LocationX (createMapEntity 0 0) / 5 = 0 \<and> LocationY (createMapEntity 0 0) / 5 = 0"
  by (simp add: GetPositionF_def createMapEntity_def goQuot_def mathMod_def goInt_def)

text \<open>
  C6, amended. In every state reached from a created entity by the operations of the kernel,
  Step among them, GetPositionF returns position/5 + 1/5 on each axis (in exact arithmetic):
  LocationX/5 + 1/5 and LocationY/5 + 1/5.
\<close>

theorem GetPositionF_reachable:
  assumes "reachable g m"
  shows "GetPositionF m = (LocationX m / 5 + 1 / 5, LocationY m / 5 + 1 / 5)"
  using reachable_derived [OF assms] trunc_split [of "LocationX m"] trunc_split [of "LocationY m"]
  by (simp add: GetPositionF_def derived_def)

theorem GetPositionF_reachable_witness:
  "reachable (\<lambda>a b c d. 0) (snd (Step (\<lambda>a b c d. 0) 100 (SetPath [\<lparr>X = 100, Y = 0\<rparr>] None (createMapEntity 7 3))))
   \<and> GetPositionF (snd (Step (\<lambda>a b c d. 0) 100 (SetPath [\<lparr>X = 100, Y = 0\<rparr>] None (createMapEntity 7 3)))) = (8 / 5, 4 / 5)"
proof -
  have r: "reachable (\<lambda>a b c d. 0) (snd (Step (\<lambda>a b c d. 0) 100 (SetPath [\<lparr>X = 100, Y = 0\<rparr>] None (createMapEntity 7 3))))"
    by (intro reachable.afterStep reachable.afterSetPath reachable.created)
  have l: "LocationX (snd (Step (\<lambda>a b c d. 0) 100 (SetPath [\<lparr>X = 100, Y = 0\<rparr>] None (createMapEntity 7 3)))) = 7" "LocationY (snd (Step (\<lambda>a b c d. 0) 100 (SetPath [\<lparr>X = 100, Y = 0\<rparr>] None (createMapEntity 7 3)))) = 3"
    unfolding first_step_pops by (simp_all add: createMapEntity_def)
  show ?thesis
    using r GetPositionF_reachable [OF r] by (simp add: l)
qed

text \<open>
  C7, the claim as stated. Both conversions truncate toward zero, which is not the floor below
  zero: the entity created at (-3, 0) has the tile coordinate 0 where floor (-3/5) is -1, and
  the subcell coordinate 1 + (-3) = -2, outside [1, 6).
\<close>

theorem derived_coordinates_counterexample:
  "TileX (createMapEntity (- 3) 0) = 0 \<and> \<lfloor>LocationX (createMapEntity (- 3) 0) / 5\<rfloor> = - 1
   \<and> subcellX (createMapEntity (- 3) 0) = - 2"
  by (simp add: createMapEntity_def goQuot_def mathMod_def goInt_def)

text \<open>
  C7, amended. In every state reached from a created entity by the operations of the kernel
  (so after creation and after every Step), on each axis whose position is not negative the
  tile coordinate is floor (position / 5), the subcell coordinate is 1 + (position mod 5),
  and the subcell coordinate lies in [1, 6).
\<close>

theorem derived_coordinates_nonneg:
  assumes "reachable g m"
  shows "(0 \<le> LocationX m \<longrightarrow>
            TileX m = \<lfloor>LocationX m / 5\<rfloor>
            \<and> subcellX m = 1 + (LocationX m - 5 * real_of_int \<lfloor>LocationX m / 5\<rfloor>)
            \<and> 1 \<le> subcellX m \<and> subcellX m < 6)
         \<and> (0 \<le> LocationY m \<longrightarrow>
            TileY m = \<lfloor>LocationY m / 5\<rfloor>
            \<and> subcellY m = 1 + (LocationY m - 5 * real_of_int \<lfloor>LocationY m / 5\<rfloor>)
            \<and> 1 \<le> subcellY m \<and> subcellY m < 6)"
proof -
  note d = reachable_derived [OF assms, unfolded derived_def]
  have x: "0 \<le> LocationX m \<Longrightarrow> TileX m = \<lfloor>LocationX m / 5\<rfloor>
            \<and> subcellX m = 1 + (LocationX m - 5 * real_of_int \<lfloor>LocationX m / 5\<rfloor>)
            \<and> 1 \<le> subcellX m \<and> subcellX m < 6"
    using d goInt_mod_nonneg [of "LocationX m"] by (simp add: mathMod_def)
  have y: "0 \<le> LocationY m \<Longrightarrow> TileY m = \<lfloor>LocationY m / 5\<rfloor>
            \<and> subcellY m = 1 + (LocationY m - 5 * real_of_int \<lfloor>LocationY m / 5\<rfloor>)
            \<and> 1 \<le> subcellY m \<and> subcellY m < 6"
    using d goInt_mod_nonneg [of "LocationY m"] by (simp add: mathMod_def)
  show ?thesis using x y by blast
qed

theorem derived_coordinates_nonneg_witness:
  "reachable (\<lambda>a b c d. 0) (snd (Step (\<lambda>a b c d. 0) 100 (SetPath [\<lparr>X = 100, Y = 0\<rparr>] None (createMapEntity 7 3))))
   \<and> 0 \<le> LocationX (snd (Step (\<lambda>a b c d. 0) 100 (SetPath [\<lparr>X = 100, Y = 0\<rparr>] None (createMapEntity 7 3))))
   \<and> 0 \<le> LocationY (snd (Step (\<lambda>a b c d. 0) 100 (SetPath [\<lparr>X = 100, Y = 0\<rparr>] None (createMapEntity 7 3))))
   \<and> TileX (snd (Step (\<lambda>a b c d. 0) 100 (SetPath [\<lparr>X = 100, Y = 0\<rparr>] None (createMapEntity 7 3)))) = 1 \<and> subcellX (snd (Step (\<lambda>a b c d. 0) 100 (SetPath [\<lparr>X = 100, Y = 0\<rparr>] None (createMapEntity 7 3)))) = 3
   \<and> TileY (snd (Step (\<lambda>a b c d. 0) 100 (SetPath [\<lparr>X = 100, Y = 0\<rparr>] None (createMapEntity 7 3)))) = 0 \<and> subcellY (snd (Step (\<lambda>a b c d. 0) 100 (SetPath [\<lparr>X = 100, Y = 0\<rparr>] None (createMapEntity 7 3)))) = 4"
proof -
  have r: "reachable (\<lambda>a b c d. 0) (snd (Step (\<lambda>a b c d. 0) 100 (SetPath [\<lparr>X = 100, Y = 0\<rparr>] None (createMapEntity 7 3))))"
    by (intro reachable.afterStep reachable.afterSetPath reachable.created)
  have l: "LocationX (snd (Step (\<lambda>a b c d. 0) 100 (SetPath [\<lparr>X = 100, Y = 0\<rparr>] None (createMapEntity 7 3)))) = 7" "LocationY (snd (Step (\<lambda>a b c d. 0) 100 (SetPath [\<lparr>X = 100, Y = 0\<rparr>] None (createMapEntity 7 3)))) = 3"
    unfolding first_step_pops by (simp_all add: createMapEntity_def)
  show ?thesis
    using r derived_coordinates_nonneg [OF r] by (simp add: l)
qed

section \<open>Several waypoints in one tick\<close>

lemma advance_axes:
  "LocationX (ent (advance s)) = fst (axisAdvance (LocationX (ent s)) (stepX s) (TargetX (ent s)))"
  "LocationY (ent (advance s)) = fst (axisAdvance (LocationY (ent s)) (stepY s) (TargetY (ent s)))"
  "stepX (advance s) = snd (axisAdvance (LocationX (ent s)) (stepX s) (TargetX (ent s)))"
  "stepY (advance s) = snd (axisAdvance (LocationY (ent s)) (stepY s) (TargetY (ent s)))"
  by (simp_all add: advance_def axisAdvance_def Let_def)

lemma axisAdvance_resting:
  "restingAxis p (t # ts) \<Longrightarrow> axisAdvance p s t = (p, 0)"
  by (simp add: restingAxis_def axisAdvance_def AlmostEqual_def AdjustWithRemainder_def)

lemma axisAdvance_forward:
  "forwardRoute p s (t # ts) \<Longrightarrow> axisAdvance p s t = (t, p + s - t)"
  by (auto simp: axisAdvance_def AlmostEqual_def AdjustWithRemainder_def)

lemma axisAdvance_backward:
  "backwardRoute p s (t # ts) \<Longrightarrow> axisAdvance p s t = (t, p + s - t)"
  by (auto simp: axisAdvance_def AlmostEqual_def AdjustWithRemainder_def)

text \<open>One iteration on an axis that follows its route: the axis ends within the coarse
  tolerance of the target, and the rest of the route is followed from there.\<close>

lemma axisAdvance_route:
  assumes "axisRoute p s (t # ts)"
  shows "AlmostEqual (fst (axisAdvance p s t)) t 0.01
         \<and> axisRoute (fst (axisAdvance p s t)) (snd (axisAdvance p s t)) ts"
  using assms axisAdvance_resting [of p t ts s] axisAdvance_forward [of p s t ts]
    axisAdvance_backward [of p s t ts]
  by (auto simp: axisRoute_def movingAxis_def AlmostEqual_def restingAxis_def)

lemma axisAdvance_moving:
  assumes "movingAxis p s (t # t' # ts)"
  shows "movingAxis (fst (axisAdvance p s t)) (snd (axisAdvance p s t)) (t' # ts)
         \<and> snd (axisAdvance p s t) \<noteq> 0"
  using assms axisAdvance_forward [of p s t "t' # ts"] axisAdvance_backward [of p s t "t' # ts"]
  by (auto simp: movingAxis_def)

lemma stepBody_landed:
  assumes "landed (ent s) tx ty"
  shows "landed (ent (stepBody g s)) tx ty \<and> stepX (stepBody g s) = 0 \<and> stepY (stepBody g s) = 0"
proof -
  have ax: "axisAdvance tx (stepX s) tx = (tx, 0)" "axisAdvance ty (stepY s) ty = (ty, 0)"
    by (simp_all add: axisAdvance_def AlmostEqual_def adjust_zero)
  have a: "LocationX (ent (advance s)) = tx" "LocationY (ent (advance s)) = ty"
    "stepX (advance s) = 0" "stepY (advance s) = 0"
    using assms ax by (simp_all add: advance_axes landed_def)
  have t: "TargetX (ent (advance s)) = tx" "TargetY (ent (advance s)) = ty" "path (ent (advance s)) = []"
    using assms by (simp_all add: landed_def)
  have c: "AlmostEqual (LocationX (ent (advance s))) (TargetX (ent (advance s))) 0.01"
    "AlmostEqual (LocationY (ent (advance s))) (TargetY (ent (advance s))) 0.01"
    using a t by (simp_all add: AlmostEqual_def)
  show ?thesis
    using arrive_snap [OF c t(3), of g] a t by (simp add: landed_def stepBody_ent stepBody_steps)
qed

lemma stepLoop_landed:
  assumes "landed (ent s) tx ty"
  shows "landed (ent (stepLoop g s)) tx ty"
  using stepBody_landed [OF assms, of g] by (simp add: stepLoop_break)

lemma stepLoop_follows_route:
  assumes "path (ent s) = ws"
    and "axisRoute (LocationX (ent s)) (stepX s) (targetsX (ent s))"
    and "axisRoute (LocationY (ent s)) (stepY s) (targetsY (ent s))"
    and "ws = [] \<or> movingAxis (LocationX (ent s)) (stepX s) (targetsX (ent s))
         \<or> movingAxis (LocationY (ent s)) (stepY s) (targetsY (ent s))"
  shows "landed (ent (stepLoop g s)) (last (targetsX (ent s))) (last (targetsY (ent s)))"
  using assms
proof (induction ws arbitrary: s)
  case Nil
  let ?a = "ent (advance s)"
  have tx: "targetsX (ent s) = [TargetX (ent s)]" and ty: "targetsY (ent s) = [TargetY (ent s)]"
    using Nil.prems(1) by (simp_all add: targetsX_def targetsY_def)
  have c: "AlmostEqual (LocationX ?a) (TargetX ?a) 0.01" "AlmostEqual (LocationY ?a) (TargetY ?a) 0.01"
    using axisAdvance_route [of "LocationX (ent s)" "stepX s" "TargetX (ent s)" "[]"]
      axisAdvance_route [of "LocationY (ent s)" "stepY s" "TargetY (ent s)" "[]"]
      Nil.prems(2,3)
    by (simp_all add: tx ty advance_axes)
  have p: "path ?a = []" using Nil.prems(1) by simp
  have l: "landed (ent (stepBody g s)) (TargetX (ent s)) (TargetY (ent s))"
    using arrive_snap [OF c p, of g] by (simp add: landed_def stepBody_ent)
  show ?case
  proof (cases "stepX (stepBody g s) = 0 \<and> stepY (stepBody g s) = 0")
    case True
    then show ?thesis using l by (simp add: stepLoop_break tx ty)
  next
    case False
    then show ?thesis using stepLoop_landed [OF l, of g] by (simp add: stepLoop_continue tx ty)
  qed
next
  case (Cons w ws)
  let ?a = "ent (advance s)"
  let ?b = "stepBody g s"
  let ?restX = "X w * 5 # map (\<lambda>w. X w * 5) ws"
  let ?restY = "Y w * 5 # map (\<lambda>w. Y w * 5) ws"
  have tx: "targetsX (ent s) = TargetX (ent s) # ?restX"
    and ty: "targetsY (ent s) = TargetY (ent s) # ?restY"
    using Cons.prems(1) by (simp_all add: targetsX_def targetsY_def)
  note rx = axisAdvance_route [of "LocationX (ent s)" "stepX s" "TargetX (ent s)" ?restX]
  note ry = axisAdvance_route [of "LocationY (ent s)" "stepY s" "TargetY (ent s)" ?restY]
  have c: "AlmostEqual (LocationX ?a) (TargetX ?a) 0.01" "AlmostEqual (LocationY ?a) (TargetY ?a) 0.01"
    using rx ry Cons.prems(2,3) by (simp_all add: tx ty advance_axes)
  have p: "path ?a = w # ws" using Cons.prems(1) by simp
  have pb: "LocationX (ent ?b) = LocationX ?a" "LocationY (ent ?b) = LocationY ?a"
    "TargetX (ent ?b) = X w * 5" "TargetY (ent ?b) = Y w * 5" "path (ent ?b) = ws"
    using arrive_pop [OF c p, of g] by (simp_all add: stepBody_ent)
  have b_path: "path (ent ?b) = ws" by (rule pb(5))
  have b_tx: "targetsX (ent ?b) = ?restX" and b_ty: "targetsY (ent ?b) = ?restY"
    using pb by (simp_all add: targetsX_def targetsY_def)
  have b_rx: "axisRoute (LocationX (ent ?b)) (stepX ?b) (targetsX (ent ?b))"
    using rx Cons.prems(2) by (simp add: b_tx tx pb stepBody_steps advance_axes)
  have b_ry: "axisRoute (LocationY (ent ?b)) (stepY ?b) (targetsY (ent ?b))"
    using ry Cons.prems(3) by (simp add: b_ty ty pb stepBody_steps advance_axes)
  have mv: "movingAxis (LocationX (ent s)) (stepX s) (targetsX (ent s))
         \<or> movingAxis (LocationY (ent s)) (stepY s) (targetsY (ent s))"
    using Cons.prems(4) by simp
  have b_mv: "(movingAxis (LocationX (ent ?b)) (stepX ?b) (targetsX (ent ?b))
         \<or> movingAxis (LocationY (ent ?b)) (stepY ?b) (targetsY (ent ?b)))
         \<and> \<not> (stepX ?b = 0 \<and> stepY ?b = 0)"
    using mv axisAdvance_moving [of "LocationX (ent s)" "stepX s" "TargetX (ent s)" "X w * 5" "map (\<lambda>w. X w * 5) ws"]
      axisAdvance_moving [of "LocationY (ent s)" "stepY s" "TargetY (ent s)" "Y w * 5" "map (\<lambda>w. Y w * 5) ws"]
    by (auto simp: b_tx b_ty tx ty pb stepBody_steps advance_axes)
  have "landed (ent (stepLoop g ?b)) (last (targetsX (ent ?b))) (last (targetsY (ent ?b)))"
    using Cons.IH [OF b_path b_rx b_ry] b_mv by blast
  moreover have "stepLoop g s = stepLoop g ?b"
    using b_mv by (intro stepLoop_continue) blast
  ultimately show ?case by (simp add: b_tx b_ty tx ty)
qed


lemma moving_not_at_target:
  "movingAxis (LocationX m) sx (targetsX m) \<or> movingAxis (LocationY m) sy (targetsY m)
     \<Longrightarrow> \<not> IsAtTarget m"
  by (auto simp: movingAxis_def targetsX_def targetsY_def IsAtTarget_def)

text \<open>
  C3, the claim as stated. The step vector is computed once, before the loop, and an axis
  within 0.0001 of its target loses its budget for the rest of the call. For the entity
  created at (0, 0) with the waypoints (100, 0) and (200, 0) in tiles and a tick of 1000 (a
  step length of 6000, the legs adding up to 1000), the first Step takes the first waypoint as
  its target and stops: one waypoint is left, and the entity has not moved.
\<close>

theorem Step_single_call_counterexample:
  "Speed (SetPath [\<lparr>X = 100, Y = 0\<rparr>, \<lparr>X = 200, Y = 0\<rparr>] None (createMapEntity 0 0)) * 1000 = 6000
   \<and> path (snd (Step (\<lambda>a b c d. 0) 1000 (SetPath [\<lparr>X = 100, Y = 0\<rparr>, \<lparr>X = 200, Y = 0\<rparr>] None (createMapEntity 0 0)))) = [\<lparr>X = 200, Y = 0\<rparr>]
   \<and> LocationX (snd (Step (\<lambda>a b c d. 0) 1000 (SetPath [\<lparr>X = 100, Y = 0\<rparr>, \<lparr>X = 200, Y = 0\<rparr>] None (createMapEntity 0 0)))) = 0
   \<and> LocationY (snd (Step (\<lambda>a b c d. 0) 1000 (SetPath [\<lparr>X = 100, Y = 0\<rparr>, \<lparr>X = 200, Y = 0\<rparr>] None (createMapEntity 0 0)))) = 0
   \<and> TargetX (snd (Step (\<lambda>a b c d. 0) 1000 (SetPath [\<lparr>X = 100, Y = 0\<rparr>, \<lparr>X = 200, Y = 0\<rparr>] None (createMapEntity 0 0)))) = 500"
  by (simp add: Step_def IsAtTarget_def HasPathFinding_def SetPath_def getStepLength_def
      stepLoop.simps loop_eval)

text \<open>
  C3, amended. Let (sx, sy) be the step vector Step computes for the tick (of length
  speed times tick duration). Suppose that on each axis either the target and every waypoint
  are within 0.0001 of the position, or the target and the successive waypoints each lie more
  than 0.0001 further in the direction of that axis's step component and the component reaches
  the last of them; and that at least one axis is of the second kind. Then a single Step call
  takes all N waypoints, leaving the queue empty, and leaves the position exactly equal to the
  final target.
\<close>

theorem Step_follows_route:
  assumes "axisRoute (LocationX m) (fst (getStepLength g t m)) (targetsX m)"
    and "axisRoute (LocationY m) (snd (getStepLength g t m)) (targetsY m)"
    and "movingAxis (LocationX m) (fst (getStepLength g t m)) (targetsX m)
         \<or> movingAxis (LocationY m) (snd (getStepLength g t m)) (targetsY m)"
  shows "path (snd (Step g t m)) = []
         \<and> LocationX (snd (Step g t m)) = last (targetsX m)
         \<and> LocationY (snd (Step g t m)) = last (targetsY m)
         \<and> TargetX (snd (Step g t m)) = last (targetsX m)
         \<and> TargetY (snd (Step g t m)) = last (targetsY m)"
proof -
  let ?s = "\<lparr>ent = m, stepX = fst (getStepLength g t m), stepY = snd (getStepLength g t m),
             fired = []\<rparr>"
  have "landed (ent (stepLoop g ?s)) (last (targetsX (ent ?s))) (last (targetsY (ent ?s)))"
    using assms by (intro stepLoop_follows_route [OF refl]) simp_all
  moreover have "snd (Step g t m) = ent (stepLoop g ?s)"
    using moving_not_at_target [OF assms(3)] by (simp add: Step_def Let_def)
  ultimately show ?thesis by (simp add: landed_def)
qed

lemma cos_359: "1 / 2 < cos (pi / 180 * 359)"
proof -
  have "pi / 180 * 359 = 2 * pi - pi / 180" by simp
  then have "cos (pi / 180 * 359) = cos (pi / 180)" by (simp only: cos_2pi_minus)
  moreover have "cos (pi / 3) < cos (pi / 180)"
    by (rule cos_monotone_0_pi) (use pi_gt_zero in simp_all)
  ultimately show ?thesis by (simp add: cos_60)
qed

theorem Step_follows_route_witness:
  "axisRoute 0 (10 * 6 * cos (pi / 180 * 359)) [5, 10, 15]
   \<and> axisRoute 0 (10 * 6 * sin (pi / 180 * 359)) [0, 0, 0]
   \<and> movingAxis 0 (10 * 6 * cos (pi / 180 * 359)) [5, 10, 15]
   \<and> path (snd (Step (\<lambda>a b c d. 0) 10
        (SetPath [\<lparr>X = 2, Y = 0\<rparr>, \<lparr>X = 3, Y = 0\<rparr>] (Some 7)
           (snd (SetTarget (\<lambda>a b c d. 0) 5 0 None (createMapEntity 0 0)))))) = []
   \<and> LocationX (snd (Step (\<lambda>a b c d. 0) 10
        (SetPath [\<lparr>X = 2, Y = 0\<rparr>, \<lparr>X = 3, Y = 0\<rparr>] (Some 7)
           (snd (SetTarget (\<lambda>a b c d. 0) 5 0 None (createMapEntity 0 0)))))) = 15
   \<and> LocationY (snd (Step (\<lambda>a b c d. 0) 10
        (SetPath [\<lparr>X = 2, Y = 0\<rparr>, \<lparr>X = 3, Y = 0\<rparr>] (Some 7)
           (snd (SetTarget (\<lambda>a b c d. 0) 5 0 None (createMapEntity 0 0)))))) = 0"
proof -
  let ?g = "\<lambda>a b c d. 0 :: int"
  let ?m = "SetPath [\<lparr>X = 2, Y = 0\<rparr>, \<lparr>X = 3, Y = 0\<rparr>] (Some 7)
           (snd (SetTarget ?g 5 0 None (createMapEntity 0 0)))"
  have v: "getStepLength ?g 10 ?m = (10 * 6 * cos (pi / 180 * 359), 10 * 6 * sin (pi / 180 * 359))"
    by (simp add: getStepLength_def SetPath_def SetTarget_def createMapEntity_def Let_def)
  have tx: "targetsX ?m = [5, 10, 15]" and ty: "targetsY ?m = [0, 0, 0]"
    and l: "LocationX ?m = 0" "LocationY ?m = 0"
    by (simp_all add: targetsX_def targetsY_def SetPath_def SetTarget_def createMapEntity_def Let_def)
  have mv: "movingAxis 0 (10 * 6 * cos (pi / 180 * 359)) [5, 10, 15]"
    using cos_359 by (simp add: movingAxis_def)
  have rx: "axisRoute 0 (10 * 6 * cos (pi / 180 * 359)) [5, 10, 15]"
    using mv by (simp add: axisRoute_def)
  have ry: "axisRoute 0 (10 * 6 * sin (pi / 180 * 359)) [0, 0, 0]"
    by (simp add: axisRoute_def restingAxis_def)
  show ?thesis
    using Step_follows_route [of ?m ?g 10] mv rx ry
    by (simp add: v tx ty l)
qed


end
